theory Spec2Isabelle
  imports Complex_Main
begin

section \<open>Numbers, Voigt vectors and exceptions\<close>

text \<open>
  The C++ type \<^verbatim>\<open>double\<close> is modelled by \<^typ>\<open>real\<close>: every arithmetic expression below
  is the expression tree of the source, read over the reals. The properties proved are
  about which expression is computed, which branch is taken and which member is written,
  not about rounding. A division by zero is \<open>0\<close> in HOL and an infinity or a NaN in C++:
  a statement that depends on the value of a quotient assumes its divisor is not zero,
  and the others leave the quotient as it is written.
\<close>

type_synonym double = real

text \<open>
  \<^verbatim>\<open>Eigen::Matrix<double, 6, 1>\<close> (\<^verbatim>\<open>Vector6d\<close>): six components, read in the source
  as \<^verbatim>\<open>v(0)\<close> ... \<^verbatim>\<open>v(5)\<close>. The local \<^verbatim>\<open>Eigen::VectorXd tau\<close> of
  \<^verbatim>\<open>compute_stress\<close> is assigned from a six-component expression and has six
  components from then on.
\<close>

datatype vec6 =
  Vec6 (c0: double) (c1: double) (c2: double) (c3: double) (c4: double) (c5: double)

text \<open>\<^verbatim>\<open>v.setZero()\<close>\<close>

definition setZero :: vec6 where
  "setZero = Vec6 0 0 0 0 0 0"

text \<open>\<^verbatim>\<open>a.dot(b)\<close>\<close>

definition dot :: "vec6 \<Rightarrow> vec6 \<Rightarrow> double" where
  "dot a b = c0 a * c0 b + c1 a * c1 b + c2 a * c2 b + c3 a * c3 b + c4 a * c4 b + c5 a * c5 b"

text \<open>\<^verbatim>\<open>s * v\<close>\<close>

definition scale :: "double \<Rightarrow> vec6 \<Rightarrow> vec6" where
  "scale s v = Vec6 (s * c0 v) (s * c1 v) (s * c2 v) (s * c3 v) (s * c4 v) (s * c5 v)"

text \<open>\<^verbatim>\<open>a + b\<close>\<close>

definition vadd :: "vec6 \<Rightarrow> vec6 \<Rightarrow> vec6" where
  "vadd a b = Vec6 (c0 a + c0 b) (c1 a + c1 b) (c2 a + c2 b) (c3 a + c3 b) (c4 a + c4 b) (c5 a + c5 b)"

text \<open>\<^verbatim>\<open>Eigen::Matrix<double, 6, 6>\<close>, by rows.\<close>

datatype mat66 = Mat66 vec6 vec6 vec6 vec6 vec6 vec6

definition setZero66 :: mat66 where
  "setZero66 = Mat66 setZero setZero setZero setZero setZero setZero"

text \<open>
  A thrown \<^verbatim>\<open>std::exception\<close>. \<open>runtime_error\<close> is the \<^verbatim>\<open>std::runtime_error\<close> the
  material throws itself; \<open>json_exception\<close> is whatever the JSON library throws from
  \<^verbatim>\<open>material_properties[key].get<double>()\<close>. Both carry their \<^verbatim>\<open>what()\<close> text.
\<close>

datatype exn = runtime_error string | json_exception string

fun what :: "exn \<Rightarrow> string" where
  "what (runtime_error s) = s"
| "what (json_exception s) = s"

section \<open>The Bingham material\<close>

text \<open>
  The data members the methods of \<^verbatim>\<open>mpm::Bingham<Tdim>\<close> read and write. A member
  \<^verbatim>\<open>name_\<close> of the source is the field \<open>name_m\<close> here (a name cannot end in an
  underscore). \<open>'j\<close> is the type \<^verbatim>\<open>Json\<close> of the stored copy \<^verbatim>\<open>properties_\<close>.
\<close>

record 'j bingham =
  density_m :: double
  youngs_modulus_m :: double
  poisson_ratio_m :: double
  tau0_m :: double
  mu_m :: double
  critical_shear_rate_m :: double
  properties_m :: 'j
  status_m :: bool

text \<open>
  What one call of a member function does: the object after the call, the lines the call
  wrote to \<^verbatim>\<open>std::cerr\<close>, and how it ended: \<open>Inr v\<close> is \<^verbatim>\<open>return v\<close>, \<open>Inl e\<close> is an
  exception \<open>e\<close> that leaves the function and reaches the caller.
\<close>

record ('j, 'a) call =
  material :: "'j bingham"
  cerr :: "string list"
  outcome :: "exn + 'a"

subsection \<open>\<^verbatim>\<open>elastic_tensor\<close> and the two-argument \<^verbatim>\<open>compute_stress\<close>\<close>

text \<open>
  Both set a local to zero, throw, and have an unreachable \<^verbatim>\<open>return\<close> after the throw.
  Neither has a \<^verbatim>\<open>try\<close> block.
\<close>

definition elastic_tensor :: "'j bingham \<Rightarrow> ('j, mat66) call" where
  "elastic_tensor this =
     (let de = setZero66
      in \<lparr>material = this, cerr = [],
          outcome = Inl (runtime_error ''Elastic tensor is not used for this material'')\<rparr>)"

definition compute_stress2 :: "'j bingham \<Rightarrow> vec6 \<Rightarrow> vec6 \<Rightarrow> ('j, vec6) call" where
  "compute_stress2 this stress dstrain =
     (let stress_results = setZero
      in \<lparr>material = this, cerr = [],
          outcome = Inl (runtime_error ''Stress computation for this material is not valid'')\<rparr>)"

subsection \<open>The particle the three-argument \<^verbatim>\<open>compute_stress\<close> reads\<close>

text \<open>
  \<^verbatim>\<open>mpm::Particle<Tdim, Tnphases>\<close>: the per-phase members are matrices with one column
  per phase, modelled as the list of their columns (\<open>Tnphases\<close> of them, at least one).
\<close>

record particle =
  id_m :: nat
  volume_m :: double
  mass_m :: "double list"
  stress_m :: "vec6 list"
  strain_m :: "vec6 list"
  strain_rate_m :: "vec6 list"
  dstrain_m :: "vec6 list"

text \<open>\<^verbatim>\<open>strain_rate(phase)\<close> returns \<^verbatim>\<open>strain_rate_.col(phase)\<close>.\<close>

definition strain_rate :: "particle \<Rightarrow> nat \<Rightarrow> vec6" where
  "strain_rate ptr phase = strain_rate_m ptr ! phase"

subsection \<open>The three-argument \<^verbatim>\<open>compute_stress\<close>\<close>

text \<open>
  The locals of the function, in the order of the source, each as a function of what it
  is computed from.
\<close>

text \<open>\<^verbatim>\<open>K = youngs_modulus_ / (3.0 * (1. - 2. * poisson_ratio_))\<close>\<close>

definition bulk_modulus :: "'j bingham \<Rightarrow> double" where
  "bulk_modulus this = youngs_modulus_m this / (3 * (1 - 2 * poisson_ratio_m this))"

text \<open>\<^verbatim>\<open>pressure_old = (stress(0) + stress(1) + stress(2)) / 3.0\<close>\<close>

definition pressure_old :: "vec6 \<Rightarrow> double" where
  "pressure_old stress = (c0 stress + c1 stress + c2 stress) / 3"

text \<open>\<^verbatim>\<open>dpressure = K * (dstrain(0) + dstrain(1) + dstrain(2))\<close>\<close>

definition dpressure :: "'j bingham \<Rightarrow> vec6 \<Rightarrow> double" where
  "dpressure this dstrain = bulk_modulus this * (c0 dstrain + c1 dstrain + c2 dstrain)"

text \<open>\<^verbatim>\<open>pressure_new = pressure_old + dpressure\<close>\<close>

definition pressure_new :: "'j bingham \<Rightarrow> vec6 \<Rightarrow> vec6 \<Rightarrow> double" where
  "pressure_new this stress dstrain = pressure_old stress + dpressure this dstrain"

text \<open>\<^verbatim>\<open>shear_rate_threshold = 1.0E-15\<close>\<close>

definition shear_rate_threshold :: double where
  "shear_rate_threshold = 1 / 10 ^ 15"

text \<open>
  \<^verbatim>\<open>if (critical_shear_rate_ < shear_rate_threshold)
    critical_shear_rate_ = shear_rate_threshold;\<close>
  The assignment is to the data member, so the statement maps the object to the object.
\<close>

definition floor_critical_shear_rate :: "'j bingham \<Rightarrow> 'j bingham" where
  "floor_critical_shear_rate this =
     (if critical_shear_rate_m this < shear_rate_threshold
      then this\<lparr>critical_shear_rate_m := shear_rate_threshold\<rparr>
      else this)"

text \<open>\<^verbatim>\<open>shear_rate = 2 * strain_rate.dot(strain_rate)\<close>\<close>

definition shear_rate :: "vec6 \<Rightarrow> double" where
  "shear_rate sr = 2 * dot sr sr"

text \<open>
  \<^verbatim>\<open>if (shear_rate > critical_shear_rate_ * critical_shear_rate_)
    modulus = 2 * ((tau0_ / (std::sqrt(shear_rate))) + mu_);
  else
    modulus = 0.;\<close>
  \<open>this\<close> is the object as it is when the statement runs.
\<close>

definition modulus :: "'j bingham \<Rightarrow> vec6 \<Rightarrow> double" where
  "modulus this sr =
     (if shear_rate sr > critical_shear_rate_m this * critical_shear_rate_m this
      then 2 * ((tau0_m this / sqrt (shear_rate sr)) + mu_m this)
      else 0)"

text \<open>\<^verbatim>\<open>tau = modulus * strain_rate\<close>: the trial deviatoric stress.\<close>

definition tau_trial :: "'j bingham \<Rightarrow> vec6 \<Rightarrow> vec6" where
  "tau_trial this sr = scale (modulus this sr) sr"

text \<open>
  \<^verbatim>\<open>double invariant2 = tau.dot(tau);
  if (invariant2 < 2 * (tau0_ * tau0_)) tau.setZero();\<close>
  The value of \<^verbatim>\<open>tau\<close> after the statement.
\<close>

definition tau :: "'j bingham \<Rightarrow> vec6 \<Rightarrow> vec6" where
  "tau this sr =
     (let t = tau_trial this sr;
          invariant2 = dot t t
      in if invariant2 < 2 * (tau0_m this * tau0_m this) then setZero else t)"

text \<open>\<^verbatim>\<open>dirac_delta << 1, 1, 1, 0, 0, 0\<close>\<close>

definition dirac_delta :: vec6 where
  "dirac_delta = Vec6 1 1 1 0 0 0"

text \<open>
  The body of the \<^verbatim>\<open>try\<close> block: it writes \<^verbatim>\<open>stress_results\<close> (three of its
  components when \<open>Tdim = 2\<close>, all of it when \<open>Tdim = 3\<close>) or throws. \<open>Inr\<close> is the value
  of \<^verbatim>\<open>stress_results\<close> at the end of the block, \<open>Inl\<close> the exception thrown in it.
\<close>

definition assemble :: "nat \<Rightarrow> double \<Rightarrow> vec6 \<Rightarrow> vec6 \<Rightarrow> exn + vec6" where
  "assemble Tdim p t stress_results =
     (if Tdim = 2 then
        Inr (Vec6 (c0 t + p) (c1 t + p) (c2 stress_results)
                  (c2 t) (c4 stress_results) (c5 stress_results))
      else if Tdim = 3 then
        Inr (vadd (scale p dirac_delta) t)
      else
        Inl (runtime_error ''Material model is not for 1D problem''))"

text \<open>
  The function. The \<^verbatim>\<open>catch (std::exception&)\<close> clause prints \<^verbatim>\<open>exception.what()\<close>
  and falls through to \<^verbatim>\<open>return stress_results\<close>, which the \<^verbatim>\<open>try\<close> block has not
  written when it threw.
\<close>

definition compute_stress3 ::
  "nat \<Rightarrow> 'j bingham \<Rightarrow> vec6 \<Rightarrow> vec6 \<Rightarrow> particle \<Rightarrow> ('j, vec6) call" where
  "compute_stress3 Tdim this stress dstrain ptr =
     (let phase = 0;
          sr = strain_rate ptr phase;
          p = pressure_new this stress dstrain;
          this' = floor_critical_shear_rate this;
          t = tau this' sr;
          stress_results = setZero
      in case assemble Tdim p t stress_results of
           Inr r \<Rightarrow> \<lparr>material = this', cerr = [], outcome = Inr r\<rparr>
         | Inl exception \<Rightarrow>
             \<lparr>material = this', cerr = [what exception], outcome = Inr stress_results\<rparr>)"

subsection \<open>\<^verbatim>\<open>properties\<close>\<close>

text \<open>
  \<^verbatim>\<open>material_properties[key].template get<double>()\<close> belongs to the JSON library, not
  to this repository. It is the parameter \<open>get_double\<close>: \<open>Inr v\<close> when the key is present
  and its value converts to the double \<open>v\<close>, \<open>Inl e\<close> when the library throws \<open>e\<close>.
\<close>

type_synonym 'j json_get = "'j \<Rightarrow> string \<Rightarrow> exn + double"

text \<open>The \<^verbatim>\<open>catch (std::exception& except)\<close> clause of \<^verbatim>\<open>properties\<close>.\<close>

definition properties_catch :: "'j bingham \<Rightarrow> exn \<Rightarrow> ('j, unit) call" where
  "properties_catch this except =
     \<lparr>material = this, cerr = [''Material parameter not set: '' @ what except],
      outcome = Inr ()\<rparr>"

text \<open>
  The \<^verbatim>\<open>try\<close> block assigns the six members one after the other; the first lookup that
  throws leaves the block with the members assigned so far.
\<close>

definition properties :: "'j json_get \<Rightarrow> 'j bingham \<Rightarrow> 'j \<Rightarrow> ('j, unit) call" where
  "properties get_double this material_properties =
     (case get_double material_properties ''density'' of
        Inl except \<Rightarrow> properties_catch this except
      | Inr v0 \<Rightarrow>
     let this = this\<lparr>density_m := v0\<rparr> in
     (case get_double material_properties ''youngs_modulus'' of
        Inl except \<Rightarrow> properties_catch this except
      | Inr v1 \<Rightarrow>
     let this = this\<lparr>youngs_modulus_m := v1\<rparr> in
     (case get_double material_properties ''poisson_ratio'' of
        Inl except \<Rightarrow> properties_catch this except
      | Inr v2 \<Rightarrow>
     let this = this\<lparr>poisson_ratio_m := v2\<rparr> in
     (case get_double material_properties ''tau0'' of
        Inl except \<Rightarrow> properties_catch this except
      | Inr v3 \<Rightarrow>
     let this = this\<lparr>tau0_m := v3\<rparr> in
     (case get_double material_properties ''mu'' of
        Inl except \<Rightarrow> properties_catch this except
      | Inr v4 \<Rightarrow>
     let this = this\<lparr>mu_m := v4\<rparr> in
     (case get_double material_properties ''critical_shear_rate'' of
        Inl except \<Rightarrow> properties_catch this except
      | Inr v5 \<Rightarrow>
     let this = this\<lparr>critical_shear_rate_m := v5\<rparr>;
         this = this\<lparr>properties_m := material_properties\<rparr>;
         this = this\<lparr>status_m := True\<rparr>
     in \<lparr>material = this, cerr = [], outcome = Inr ()\<rparr>))))))"

text \<open>
  The six keys \<^verbatim>\<open>properties\<close> reads, in the order it reads them, and the member each
  one is assigned to.
\<close>

definition required_keys :: "string list" where
  "required_keys =
     [''density'', ''youngs_modulus'', ''poisson_ratio'', ''tau0'', ''mu'',
      ''critical_shear_rate'']"

definition param :: "'j bingham \<Rightarrow> nat \<Rightarrow> double" where
  "param this i =
     [density_m this, youngs_modulus_m this, poisson_ratio_m this, tau0_m this, mu_m this,
      critical_shear_rate_m this] ! i"

text \<open>
  A JSON object for the examples: an association list from keys to numbers, whose lookup
  throws when the key is absent.
\<close>

definition alist_get :: "(string \<times> double) list json_get" where
  "alist_get j k =
     (case map_of j k of
        None \<Rightarrow> Inl (json_exception (''key not found: '' @ k))
      | Some v \<Rightarrow> Inr v)"

section \<open>Example inputs\<close>

text \<open>Materials, particles and parameter sets on which the statements below are run.\<close>

definition newtonian :: "(string \<times> double) list bingham" where
  "newtonian =
     \<lparr>density_m = 1000, youngs_modulus_m = 3, poisson_ratio_m = 0, tau0_m = 0, mu_m = 1,
      critical_shear_rate_m = 0, properties_m = [], status_m = True\<rparr>"

definition viscoplastic :: "(string \<times> double) list bingham" where
  "viscoplastic =
     \<lparr>density_m = 1000, youngs_modulus_m = 3, poisson_ratio_m = 0, tau0_m = 1, mu_m = 1,
      critical_shear_rate_m = 1 / 100, properties_m = [], status_m = True\<rparr>"

text \<open>A material with a negative viscosity: its trial deviatoric stress fails the von Mises
  check while it shears.\<close>

definition negative_viscosity :: "(string \<times> double) list bingham" where
  "negative_viscosity =
     \<lparr>density_m = 1000, youngs_modulus_m = 3, poisson_ratio_m = 0, tau0_m = 1, mu_m = - 1 / 4,
      critical_shear_rate_m = 1 / 100, properties_m = [], status_m = True\<rparr>"

text \<open>A material before \<^verbatim>\<open>properties\<close> has been called on it.\<close>

definition unconfigured :: "(string \<times> double) list bingham" where
  "unconfigured =
     \<lparr>density_m = 7, youngs_modulus_m = 7, poisson_ratio_m = 7, tau0_m = 7, mu_m = 7,
      critical_shear_rate_m = 7, properties_m = [], status_m = False\<rparr>"

text \<open>A particle with the given strain rates, one per phase.\<close>

definition particle_of :: "vec6 list \<Rightarrow> particle" where
  "particle_of rates =
     \<lparr>id_m = 0, volume_m = 1, mass_m = map (\<lambda>r. 1) rates,
      stress_m = map (\<lambda>r. setZero) rates, strain_m = map (\<lambda>r. setZero) rates,
      strain_rate_m = rates, dstrain_m = map (\<lambda>r. setZero) rates\<rparr>"

definition complete_json :: "(string \<times> double) list" where
  "complete_json =
     [(''density'', 1000), (''youngs_modulus'', 3), (''poisson_ratio'', 0), (''tau0'', 1),
      (''mu'', 1), (''critical_shear_rate'', 1 / 100)]"

definition json_without_tau0 :: "(string \<times> double) list" where
  "json_without_tau0 =
     [(''density'', 1000), (''youngs_modulus'', 3), (''poisson_ratio'', 0),
      (''mu'', 1), (''critical_shear_rate'', 1 / 100)]"

section \<open>What a call of the three-argument \<^verbatim>\<open>compute_stress\<close> yields\<close>

lemma floor_critical_shear_rate_max:
  "floor_critical_shear_rate this =
     this\<lparr>critical_shear_rate_m := max (critical_shear_rate_m this) shear_rate_threshold\<rparr>"
  by (simp add: floor_critical_shear_rate_def max_def)

lemma floor_critical_shear_rate_fields [simp]:
  "tau0_m (floor_critical_shear_rate this) = tau0_m this"
  "mu_m (floor_critical_shear_rate this) = mu_m this"
  "critical_shear_rate_m (floor_critical_shear_rate this) =
     max (critical_shear_rate_m this) shear_rate_threshold"
  by (simp_all add: floor_critical_shear_rate_def max_def)

lemma material_compute_stress3:
  "material (compute_stress3 Tdim this stress dstrain ptr) = floor_critical_shear_rate this"
  by (simp add: compute_stress3_def Let_def assemble_def)

lemma compute_stress3_2d:
  "outcome (compute_stress3 2 this stress dstrain ptr) =
     Inr (Vec6 (c0 (tau (floor_critical_shear_rate this) (strain_rate ptr 0))
                  + pressure_new this stress dstrain)
               (c1 (tau (floor_critical_shear_rate this) (strain_rate ptr 0))
                  + pressure_new this stress dstrain)
               0
               (c2 (tau (floor_critical_shear_rate this) (strain_rate ptr 0)))
               0 0)"
  by (simp add: compute_stress3_def Let_def assemble_def setZero_def)

lemma compute_stress3_3d:
  "outcome (compute_stress3 3 this stress dstrain ptr) =
     Inr (vadd (scale (pressure_new this stress dstrain) dirac_delta)
               (tau (floor_critical_shear_rate this) (strain_rate ptr 0)))"
  by (simp add: compute_stress3_def Let_def assemble_def)

lemma compute_stress3_other_dim:
  "Tdim \<noteq> 2 \<Longrightarrow> Tdim \<noteq> 3 \<Longrightarrow>
     compute_stress3 Tdim this stress dstrain ptr =
       \<lparr>material = floor_critical_shear_rate this,
        cerr = [''Material model is not for 1D problem''],
        outcome = Inr setZero\<rparr>"
  by (simp add: compute_stress3_def Let_def assemble_def)

lemma tau_at_rest: "tau this (Vec6 0 0 0 0 0 0) = Vec6 0 0 0 0 0 0"
  by (simp add: tau_def tau_trial_def Let_def scale_def setZero_def)

lemma dot_self_nonneg: "0 \<le> dot v v"
  by (simp add: dot_def add_nonneg_nonneg)

lemma tau_without_yield_stress:
  "tau0_m this = 0 \<Longrightarrow> tau this sr = scale (modulus this sr) sr"
  using dot_self_nonneg [of "tau_trial this sr"]
  by (simp add: tau_def tau_trial_def Let_def not_less)

lemma shear_rate_two_units: "shear_rate (Vec6 1 1 0 0 0 0) = 4"
  by (simp add: shear_rate_def dot_def)

lemma modulus_viscoplastic: "modulus (floor_critical_shear_rate viscoplastic) (Vec6 1 1 0 0 0 0) = 3"
  by (simp add: modulus_def shear_rate_two_units viscoplastic_def shear_rate_threshold_def)

lemma modulus_negative_viscosity:
  "modulus (floor_critical_shear_rate negative_viscosity) (Vec6 1 1 0 0 0 0) = 1 / 2"
  by (simp add: modulus_def shear_rate_two_units negative_viscosity_def shear_rate_threshold_def)

lemma tau_viscoplastic:
  "tau (floor_critical_shear_rate viscoplastic) (Vec6 1 1 0 0 0 0) = Vec6 3 3 0 0 0 0"
  by (simp add: tau_def tau_trial_def Let_def modulus_viscoplastic scale_def dot_def)
     (simp add: viscoplastic_def)

section \<open>What a call of \<^verbatim>\<open>properties\<close> yields\<close>

lemma outcome_properties: "outcome (properties get_double this j) = Inr ()"
  by (simp add: properties_def properties_catch_def Let_def split: sum.splits)

lemma status_properties:
  "status_m (material (properties get_double this j)) =
     (status_m this \<or> (\<forall>k \<in> set required_keys. \<not> isl (get_double j k)))"
  by (auto simp add: properties_def properties_catch_def Let_def required_keys_def
      split: sum.splits)

section \<open>Frame of the three-argument \<^verbatim>\<open>compute_stress\<close>\<close>

text \<open>
  C1, as stated: the three-argument \<^verbatim>\<open>compute_stress\<close> leaves the material's
  configuration unchanged, in particular the stored \<^verbatim>\<open>critical_shear_rate_\<close>. It does
  not: on a material configured with a critical shear rate of \<open>0\<close> the member holds
  \<open>1.0E-15\<close> after the call.
\<close>

theorem compute_stress3_mutates_counterexample:
  "critical_shear_rate_m
     (material (compute_stress3 3 newtonian (Vec6 3 3 3 0 0 0) setZero (particle_of [setZero])))
     = 1 / 10 ^ 15 \<and>
   critical_shear_rate_m newtonian = 0"
  by (simp add: material_compute_stress3 shear_rate_threshold_def newtonian_def)

text \<open>
  C1, amended: the three-argument \<^verbatim>\<open>compute_stress\<close> writes one member only. After the
  call \<^verbatim>\<open>critical_shear_rate_\<close> is the larger of its old value and \<open>1.0E-15\<close> (so it is
  unchanged exactly when it was at least \<open>1.0E-15\<close>), and every other member of the
  material (density, Young's modulus, Poisson ratio, \<open>tau0\<close>, \<open>mu\<close>, the stored
  properties, the status flag) is as before, for every dimension and every input.
\<close>

theorem compute_stress3_frame:
  "material (compute_stress3 Tdim this stress dstrain ptr) =
     this\<lparr>critical_shear_rate_m := max (critical_shear_rate_m this) (1 / 10 ^ 15)\<rparr>"
  by (simp add: material_compute_stress3 floor_critical_shear_rate_max shear_rate_threshold_def)

section \<open>Dimensions other than 2 and 3\<close>

text \<open>
  C2, as stated: for a \<open>Tdim\<close> other than 2 or 3 the three-argument \<^verbatim>\<open>compute_stress\<close>
  throws to its caller instead of returning a stress. It does not: the exception is
  thrown inside the function's own \<^verbatim>\<open>try\<close> block and caught there, and the call with
  \<open>Tdim = 1\<close> returns the zero stress.
\<close>

theorem compute_stress3_1d_returns_counterexample:
  "outcome (compute_stress3 1 viscoplastic (Vec6 3 3 3 0 0 0) (Vec6 1 0 0 0 0 0)
              (particle_of [Vec6 1 1 0 0 0 0]))
     = Inr (Vec6 0 0 0 0 0 0)"
  by (simp add: compute_stress3_other_dim setZero_def)

text \<open>
  C2, amended: for every \<open>Tdim\<close> other than 2 or 3 the three-argument
  \<^verbatim>\<open>compute_stress\<close> returns normally. The error it throws is caught inside the
  function, its message \<^verbatim>\<open>Material model is not for 1D problem\<close> is written to
  \<^verbatim>\<open>std::cerr\<close>, and the value returned is the all-zero stress, whatever the old stress,
  the strain increment and the particle are.
\<close>

theorem compute_stress3_unsupported_dim:
  "Tdim \<noteq> 2 \<Longrightarrow> Tdim \<noteq> 3 \<Longrightarrow>
     outcome (compute_stress3 Tdim this stress dstrain ptr) = Inr (Vec6 0 0 0 0 0 0) \<and>
     cerr (compute_stress3 Tdim this stress dstrain ptr) =
       [''Material model is not for 1D problem'']"
  by (simp add: compute_stress3_other_dim setZero_def)

theorem compute_stress3_unsupported_dim_witness:
  "outcome (compute_stress3 1 viscoplastic (Vec6 3 3 3 0 0 0) (Vec6 1 0 0 0 0 0)
              (particle_of [Vec6 1 1 0 0 0 0]))
     = Inr (Vec6 0 0 0 0 0 0) \<and>
   cerr (compute_stress3 1 viscoplastic (Vec6 3 3 3 0 0 0) (Vec6 1 0 0 0 0 0)
           (particle_of [Vec6 1 1 0 0 0 0]))
     = [''Material model is not for 1D problem'']"
  using compute_stress3_unsupported_dim
          [of 1 viscoplastic "Vec6 3 3 3 0 0 0" "Vec6 1 0 0 0 0 0" "particle_of [Vec6 1 1 0 0 0 0]"]
  by simp

section \<open>The apparent modulus\<close>

text \<open>
  C3, as stated: the modulus is \<open>2 * (tau0 / sqrt g + mu)\<close> with \<open>g = 2 * (sr . sr)\<close>
  whenever \<open>g > critical_shear_rate\<^sup>2\<close> and \<open>0\<close> otherwise, so that with \<open>tau0 = 0\<close>, a
  near-zero critical shear rate and a nonzero strain rate it is \<open>2 * mu\<close>. It is not:
  with \<open>tau0 = 0\<close>, \<open>mu = 1\<close>, a critical shear rate of \<open>0\<close> and the nonzero strain rate
  \<open>(1.0E-16, 0, 0, 0, 0, 0)\<close>, \<open>g = 2.0E-32\<close> exceeds \<open>critical_shear_rate\<^sup>2 = 0\<close> but
  not the square of the floor \<open>1.0E-15\<close>, and the modulus is \<open>0\<close>, not \<open>2 * mu = 2\<close>.
\<close>

theorem modulus_newtonian_limit_counterexample:
  "tau0_m newtonian = 0 \<and>
   critical_shear_rate_m newtonian = 0 \<and>
   Vec6 (1 / 10 ^ 16) 0 0 0 0 0 \<noteq> Vec6 0 0 0 0 0 0 \<and>
   2 * dot (Vec6 (1 / 10 ^ 16) 0 0 0 0 0) (Vec6 (1 / 10 ^ 16) 0 0 0 0 0)
     > (critical_shear_rate_m newtonian)\<^sup>2 \<and>
   modulus (floor_critical_shear_rate newtonian) (Vec6 (1 / 10 ^ 16) 0 0 0 0 0) = 0 \<and>
   2 * mu_m newtonian = 2"
  by (simp add: modulus_def shear_rate_def shear_rate_threshold_def newtonian_def dot_def)

text \<open>
  C3, amended: with \<open>g = 2 * (sr . sr)\<close> and \<open>c\<close> the floored critical shear rate, the
  larger of \<^verbatim>\<open>critical_shear_rate_\<close> and \<open>1.0E-15\<close>, the modulus the function computes is
  \<open>2 * (tau0 / sqrt g + mu)\<close> whenever \<open>g > c\<^sup>2\<close> and \<open>0\<close> otherwise. In particular, with
  \<open>tau0 = 0\<close> and a strain rate with \<open>g > c\<^sup>2\<close> (a nonzero strain rate is not enough),
  the modulus is \<open>2 * mu\<close>, and the stress returned in three dimensions is the Newtonian
  \<open>pressure_new * [1,1,1,0,0,0] + 2 * mu * sr\<close>.
\<close>

theorem modulus_floored_threshold:
  "modulus (floor_critical_shear_rate this) sr =
     (if 2 * dot sr sr > (max (critical_shear_rate_m this) (1 / 10 ^ 15))\<^sup>2
      then 2 * (tau0_m this / sqrt (2 * dot sr sr) + mu_m this)
      else 0) \<and>
   (tau0_m this = 0 \<and> 2 * dot sr sr > (max (critical_shear_rate_m this) (1 / 10 ^ 15))\<^sup>2 \<longrightarrow>
      modulus (floor_critical_shear_rate this) sr = 2 * mu_m this) \<and>
   (tau0_m this = 0 \<and>
    2 * dot (strain_rate ptr 0) (strain_rate ptr 0)
      > (max (critical_shear_rate_m this) (1 / 10 ^ 15))\<^sup>2 \<longrightarrow>
      outcome (compute_stress3 3 this stress dstrain ptr) =
        Inr (vadd (scale (pressure_new this stress dstrain) (Vec6 1 1 1 0 0 0))
                  (scale (2 * mu_m this) (strain_rate ptr 0))))"
proof -
  have m: "modulus (floor_critical_shear_rate this) r =
     (if 2 * dot r r > (max (critical_shear_rate_m this) (1 / 10 ^ 15))\<^sup>2
      then 2 * (tau0_m this / sqrt (2 * dot r r) + mu_m this)
      else 0)" for r
    by (simp add: modulus_def shear_rate_def shear_rate_threshold_def power2_eq_square)
  have t: "tau0_m this = 0 \<Longrightarrow>
      tau (floor_critical_shear_rate this) r = scale (modulus (floor_critical_shear_rate this) r) r" for r
    by (simp add: tau_without_yield_stress)
  show ?thesis
    by (simp add: m t compute_stress3_3d dirac_delta_def)
qed

theorem modulus_floored_threshold_witness:
  "modulus (floor_critical_shear_rate newtonian) (Vec6 1 1 0 0 0 0) = 2 \<and>
   outcome (compute_stress3 3 newtonian (Vec6 3 3 3 0 0 0) (Vec6 1 0 0 0 0 0)
              (particle_of [Vec6 1 1 0 0 0 0]))
     = Inr (Vec6 6 6 4 0 0 0)"
  using modulus_floored_threshold
          [of newtonian "Vec6 1 1 0 0 0 0" "particle_of [Vec6 1 1 0 0 0 0]"
              "Vec6 3 3 3 0 0 0" "Vec6 1 0 0 0 0 0"]
  by (simp add: newtonian_def dot_def power2_eq_square strain_rate_def particle_of_def
      pressure_new_def pressure_old_def dpressure_def bulk_modulus_def scale_def vadd_def)

section \<open>The von Mises check\<close>

text \<open>
  C4. In the three-argument \<^verbatim>\<open>compute_stress\<close>, with the trial deviatoric stress
  \<open>tau = modulus * strain_rate\<close>: if \<open>tau . tau < 2 * tau0\<^sup>2\<close> then \<open>tau\<close> becomes the zero
  vector (it is not rescaled), and otherwise it keeps the trial value. This \<open>tau\<close> is
  the one the returned stress is assembled from.
\<close>

theorem von_mises_zeroes_tau:
  "tau (floor_critical_shear_rate this) sr =
     (if dot (scale (modulus (floor_critical_shear_rate this) sr) sr)
             (scale (modulus (floor_critical_shear_rate this) sr) sr)
           < 2 * (tau0_m this)\<^sup>2
      then Vec6 0 0 0 0 0 0
      else scale (modulus (floor_critical_shear_rate this) sr) sr) \<and>
   outcome (compute_stress3 3 this stress dstrain ptr) =
     Inr (vadd (scale (pressure_new this stress dstrain) (Vec6 1 1 1 0 0 0))
               (tau (floor_critical_shear_rate this) (strain_rate ptr 0)))"
  by (simp add: tau_def tau_trial_def Let_def power2_eq_square setZero_def compute_stress3_3d
      dirac_delta_def)

text \<open>
  Both branches on examples: a trial stress \<open>(1/2, 1/2, 0, 0, 0, 0)\<close> with
  \<open>tau . tau = 1/2 < 2\<close> is replaced by zero, a trial stress \<open>(3, 3, 0, 0, 0, 0)\<close> with
  \<open>tau . tau = 18\<close> is kept.
\<close>

theorem von_mises_zeroes_tau_witness:
  "scale (modulus (floor_critical_shear_rate negative_viscosity) (Vec6 1 1 0 0 0 0)) (Vec6 1 1 0 0 0 0)
     = Vec6 (1 / 2) (1 / 2) 0 0 0 0 \<and>
   tau (floor_critical_shear_rate negative_viscosity) (Vec6 1 1 0 0 0 0) = Vec6 0 0 0 0 0 0 \<and>
   outcome (compute_stress3 3 negative_viscosity (Vec6 3 3 3 0 0 0) (Vec6 1 0 0 0 0 0)
              (particle_of [Vec6 1 1 0 0 0 0]))
     = Inr (Vec6 4 4 4 0 0 0) \<and>
   tau (floor_critical_shear_rate viscoplastic) (Vec6 1 1 0 0 0 0) = Vec6 3 3 0 0 0 0"
proof -
  have yield: "tau0_m negative_viscosity = 1" "tau0_m viscoplastic = 1"
    by (simp_all add: negative_viscosity_def viscoplastic_def)
  have rate: "strain_rate (particle_of [Vec6 1 1 0 0 0 0]) 0 = Vec6 1 1 0 0 0 0"
    by (simp add: strain_rate_def particle_of_def)
  have pressure: "pressure_new negative_viscosity (Vec6 3 3 3 0 0 0) (Vec6 1 0 0 0 0 0) = 4"
    by (simp add: pressure_new_def pressure_old_def dpressure_def bulk_modulus_def
        negative_viscosity_def)
  show ?thesis
    using von_mises_zeroes_tau [of negative_viscosity "Vec6 1 1 0 0 0 0" "Vec6 3 3 3 0 0 0"
                                   "Vec6 1 0 0 0 0 0" "particle_of [Vec6 1 1 0 0 0 0]"]
          von_mises_zeroes_tau [of viscoplastic "Vec6 1 1 0 0 0 0" "Vec6 3 3 3 0 0 0"
                                   "Vec6 1 0 0 0 0 0" "particle_of [Vec6 1 1 0 0 0 0]"]
    by (simp add: yield rate pressure modulus_negative_viscosity modulus_viscoplastic scale_def
        vadd_def dot_def power2_eq_square)
qed

section \<open>A particle at rest\<close>

text \<open>
  C6, as stated: for every Bingham material and every input whose strain rate is zero, the
  returned stress has a zero deviatoric part and the pressure
  \<open>trace(stress)/3 + K * (dstrain(0) + dstrain(1) + dstrain(2))\<close>. Not in two
  dimensions: with \<open>Tdim = 2\<close>, the old stress \<open>(3, 3, 3, 0, 0, 0)\<close> of pressure \<open>3\<close>, a
  zero strain increment and a particle at rest, the returned stress is
  \<open>(3, 3, 0, 0, 0, 0)\<close>. Its pressure \<open>trace/3\<close> is \<open>2\<close> where the claim has \<open>3\<close>, and its
  deviatoric part, the stress minus its pressure on the diagonal, is \<open>(1, 1, -2, 0, 0, 0)\<close>
  and not zero.
\<close>

theorem rest_pressure_2d_counterexample:
  "strain_rate (particle_of [Vec6 0 0 0 0 0 0]) 0 = Vec6 0 0 0 0 0 0 \<and>
   outcome (compute_stress3 2 viscoplastic (Vec6 3 3 3 0 0 0) (Vec6 0 0 0 0 0 0)
              (particle_of [Vec6 0 0 0 0 0 0]))
     = Inr (Vec6 3 3 0 0 0 0) \<and>
   pressure_old (Vec6 3 3 0 0 0 0) = 2 \<and>
   pressure_old (Vec6 3 3 3 0 0 0)
     + youngs_modulus_m viscoplastic / (3 * (1 - 2 * poisson_ratio_m viscoplastic)) * (0 + 0 + 0)
     = 3 \<and>
   vadd (Vec6 3 3 0 0 0 0) (scale (- pressure_old (Vec6 3 3 0 0 0 0)) (Vec6 1 1 1 0 0 0))
     = Vec6 1 1 (- 2) 0 0 0"
proof -
  have rest: "strain_rate (particle_of [Vec6 0 0 0 0 0 0]) 0 = Vec6 0 0 0 0 0 0"
    by (simp add: strain_rate_def particle_of_def)
  have p: "pressure_new viscoplastic (Vec6 3 3 3 0 0 0) (Vec6 0 0 0 0 0 0) = 3"
    by (simp add: pressure_new_def pressure_old_def dpressure_def)
  have old: "pressure_old (Vec6 3 3 0 0 0 0) = 2" "pressure_old (Vec6 3 3 3 0 0 0) = 3"
    by (simp_all add: pressure_old_def)
  show ?thesis
    by (simp add: compute_stress3_2d rest tau_at_rest p old scale_def vadd_def)
qed

text \<open>
  C6, amended: for a Poisson ratio other than \<open>1/2\<close> (so that the divisor of
  \<open>K = E / (3 * (1 - 2 * nu))\<close> is not zero) and a particle whose phase-0 strain rate is
  identically zero, the deviatoric stress \<open>tau\<close> the function computes is exactly zero,
  and with \<open>p = trace(stress)/3 + K * (dstrain(0) + dstrain(1) + dstrain(2))\<close> the
  returned stress is \<open>p * [1,1,1,0,0,0]\<close> for \<open>Tdim = 3\<close>, which has a zero deviatoric part
  and the pressure \<open>p\<close>, and \<open>p * [1,1,0,0,0,0]\<close> for \<open>Tdim = 2\<close>, where component 2 is not
  written: there the two in-plane normal components are \<open>p\<close> and every other component
  is zero.
\<close>

theorem rest_gives_pressure_only:
  "strain_rate ptr 0 = Vec6 0 0 0 0 0 0 \<Longrightarrow>
   poisson_ratio_m this \<noteq> 1 / 2 \<Longrightarrow>
     tau (floor_critical_shear_rate this) (strain_rate ptr 0) = Vec6 0 0 0 0 0 0 \<and>
     (Tdim = 3 \<longrightarrow>
        outcome (compute_stress3 Tdim this stress dstrain ptr) =
          Inr (scale ((c0 stress + c1 stress + c2 stress) / 3
                       + youngs_modulus_m this / (3 * (1 - 2 * poisson_ratio_m this))
                         * (c0 dstrain + c1 dstrain + c2 dstrain))
                     (Vec6 1 1 1 0 0 0))) \<and>
     (Tdim = 2 \<longrightarrow>
        outcome (compute_stress3 Tdim this stress dstrain ptr) =
          Inr (scale ((c0 stress + c1 stress + c2 stress) / 3
                       + youngs_modulus_m this / (3 * (1 - 2 * poisson_ratio_m this))
                         * (c0 dstrain + c1 dstrain + c2 dstrain))
                     (Vec6 1 1 0 0 0 0)))"
  by (simp add: compute_stress3_2d compute_stress3_3d tau_at_rest pressure_new_def
      pressure_old_def dpressure_def bulk_modulus_def scale_def vadd_def dirac_delta_def)

theorem rest_gives_pressure_only_witness:
  "strain_rate (particle_of [Vec6 0 0 0 0 0 0, Vec6 5 0 0 0 0 0]) 0 = Vec6 0 0 0 0 0 0 \<and>
   poisson_ratio_m viscoplastic \<noteq> 1 / 2 \<and>
   outcome (compute_stress3 3 viscoplastic (Vec6 3 3 3 0 0 0) (Vec6 1 0 0 0 0 0)
              (particle_of [Vec6 0 0 0 0 0 0, Vec6 5 0 0 0 0 0]))
     = Inr (Vec6 4 4 4 0 0 0) \<and>
   outcome (compute_stress3 2 viscoplastic (Vec6 3 3 3 0 0 0) (Vec6 1 0 0 0 0 0)
              (particle_of [Vec6 0 0 0 0 0 0, Vec6 5 0 0 0 0 0]))
     = Inr (Vec6 4 4 0 0 0 0)"
proof -
  have rest: "strain_rate (particle_of [Vec6 0 0 0 0 0 0, Vec6 5 0 0 0 0 0]) 0 = Vec6 0 0 0 0 0 0"
    by (simp add: strain_rate_def particle_of_def)
  have ratio: "poisson_ratio_m viscoplastic \<noteq> 1 / 2"
    by (simp add: viscoplastic_def)
  show ?thesis
    using rest ratio
      rest_gives_pressure_only [OF rest ratio, of 3 "Vec6 3 3 3 0 0 0" "Vec6 1 0 0 0 0 0"]
      rest_gives_pressure_only [OF rest ratio, of 2 "Vec6 3 3 3 0 0 0" "Vec6 1 0 0 0 0 0"]
    by (simp add: viscoplastic_def scale_def)
qed

section \<open>Assembly of the returned stress\<close>

text \<open>
  C8. With \<open>tau\<close> the deviatoric stress after the von Mises check and \<open>p_new\<close> the new
  pressure: for \<open>Tdim = 2\<close> the returned stress has component 0 equal to \<open>tau(0) + p_new\<close>,
  component 1 equal to \<open>tau(1) + p_new\<close>, component 3 equal to \<open>tau(2)\<close> and components
  2, 4 and 5 equal to zero; for \<open>Tdim = 3\<close> it is \<open>p_new * [1,1,1,0,0,0] + tau\<close>.
\<close>

theorem stress_assembly:
  "(Tdim = 2 \<longrightarrow>
      outcome (compute_stress3 Tdim this stress dstrain ptr) =
        Inr (Vec6 (c0 (tau (floor_critical_shear_rate this) (strain_rate ptr 0))
                     + pressure_new this stress dstrain)
                  (c1 (tau (floor_critical_shear_rate this) (strain_rate ptr 0))
                     + pressure_new this stress dstrain)
                  0
                  (c2 (tau (floor_critical_shear_rate this) (strain_rate ptr 0)))
                  0 0)) \<and>
   (Tdim = 3 \<longrightarrow>
      outcome (compute_stress3 Tdim this stress dstrain ptr) =
        Inr (vadd (scale (pressure_new this stress dstrain) (Vec6 1 1 1 0 0 0))
                  (tau (floor_critical_shear_rate this) (strain_rate ptr 0))))"
  by (simp add: compute_stress3_2d compute_stress3_3d dirac_delta_def)

theorem stress_assembly_witness:
  "outcome (compute_stress3 2 viscoplastic (Vec6 3 3 3 0 0 0) (Vec6 1 0 0 0 0 0)
              (particle_of [Vec6 1 1 0 0 0 0]))
     = Inr (Vec6 7 7 0 0 0 0) \<and>
   outcome (compute_stress3 3 viscoplastic (Vec6 3 3 3 0 0 0) (Vec6 1 0 0 0 0 0)
              (particle_of [Vec6 1 1 0 0 0 0]))
     = Inr (Vec6 7 7 4 0 0 0)"
  using stress_assembly [of 2 viscoplastic "Vec6 3 3 3 0 0 0" "Vec6 1 0 0 0 0 0"
                            "particle_of [Vec6 1 1 0 0 0 0]"]
        stress_assembly [of 3 viscoplastic "Vec6 3 3 3 0 0 0" "Vec6 1 0 0 0 0 0"
                            "particle_of [Vec6 1 1 0 0 0 0]"]
  by (simp add: strain_rate_def particle_of_def tau_viscoplastic pressure_new_def
      pressure_old_def dpressure_def bulk_modulus_def scale_def vadd_def)
     (simp add: viscoplastic_def)

section \<open>Only phase 0 is read\<close>

text \<open>
  C10. The three-argument \<^verbatim>\<open>compute_stress\<close> reads nothing of the particle but the
  strain rate of phase 0: for two particles with the same phase-0 strain rate, whatever
  their number of phases and their other members, the call yields the same stress (and
  the same material and the same output) for the same stress and strain increment.
\<close>

theorem only_phase0_strain_rate:
  "strain_rate ptr1 0 = strain_rate ptr2 0 \<Longrightarrow>
   compute_stress3 Tdim this stress dstrain ptr1 = compute_stress3 Tdim this stress dstrain ptr2"
  by (simp add: compute_stress3_def Let_def)

theorem only_phase0_strain_rate_witness:
  "particle_of [Vec6 1 1 0 0 0 0, Vec6 5 0 0 0 0 0] \<noteq> particle_of [Vec6 1 1 0 0 0 0] \<and>
   strain_rate (particle_of [Vec6 1 1 0 0 0 0, Vec6 5 0 0 0 0 0]) 0
     = strain_rate (particle_of [Vec6 1 1 0 0 0 0]) 0 \<and>
   compute_stress3 2 viscoplastic (Vec6 3 3 3 0 0 0) (Vec6 1 0 0 0 0 0)
       (particle_of [Vec6 1 1 0 0 0 0, Vec6 5 0 0 0 0 0])
     = compute_stress3 2 viscoplastic (Vec6 3 3 3 0 0 0) (Vec6 1 0 0 0 0 0)
         (particle_of [Vec6 1 1 0 0 0 0])"
  using only_phase0_strain_rate
          [of "particle_of [Vec6 1 1 0 0 0 0, Vec6 5 0 0 0 0 0]" "particle_of [Vec6 1 1 0 0 0 0]"
              2 viscoplastic "Vec6 3 3 3 0 0 0" "Vec6 1 0 0 0 0 0"]
  by (simp add: strain_rate_def particle_of_def)

section \<open>Unsupported entry points\<close>

text \<open>
  C5. On a Bingham material, every call of \<^verbatim>\<open>elastic_tensor()\<close> and every call of the
  two-argument \<^verbatim>\<open>compute_stress(stress, dstrain)\<close> ends in a thrown
  \<^verbatim>\<open>std::runtime_error\<close> that reaches the caller, whatever the material and the
  arguments are, and leaves every member of the material as it was before the call.
\<close>

theorem unsupported_paths_throw:
  "outcome (elastic_tensor this) =
     Inl (runtime_error ''Elastic tensor is not used for this material'') \<and>
   material (elastic_tensor this) = this \<and>
   outcome (compute_stress2 this stress dstrain) =
     Inl (runtime_error ''Stress computation for this material is not valid'') \<and>
   material (compute_stress2 this stress dstrain) = this"
  by (simp add: elastic_tensor_def compute_stress2_def)

section \<open>Configuration\<close>

text \<open>
  C7, as stated: after \<^verbatim>\<open>properties(material_properties)\<close> the status flag is true if
  and only if all six required parameters were present and parseable, and an instance
  with a missing parameter is invalid and unusable. Not on an instance that is already
  valid: a material configured from a complete parameter set and then given a set
  without \<open>tau0\<close> keeps its flag true, although the lookup of \<open>tau0\<close> throws. And an
  instance whose configuration failed is not unusable: the flag is false, but the
  three-argument \<^verbatim>\<open>compute_stress\<close> does not read it and returns a stress.
\<close>

theorem properties_status_counterexample:
  "status_m (material (properties alist_get unconfigured complete_json)) \<and>
   isl (alist_get json_without_tau0 ''tau0'') \<and>
   status_m (material (properties alist_get
               (material (properties alist_get unconfigured complete_json))
               json_without_tau0)) \<and>
   \<not> status_m (material (properties alist_get unconfigured json_without_tau0)) \<and>
   outcome (compute_stress3 3 (material (properties alist_get unconfigured json_without_tau0))
              (Vec6 3 3 3 0 0 0) (Vec6 1 0 0 0 0 0) (particle_of [Vec6 0 0 0 0 0 0]))
     = Inr (Vec6 4 4 4 0 0 0)"
proof -
  have throws: "isl (alist_get json_without_tau0 ''tau0'')"
    by (simp add: alist_get_def json_without_tau0_def)
  have valid: "status_m (material (properties alist_get unconfigured complete_json))"
    by (simp add: status_properties required_keys_def alist_get_def complete_json_def)
  have kept: "status_m (material (properties alist_get
                (material (properties alist_get unconfigured complete_json))
                json_without_tau0))"
    using valid by (simp add: status_properties)
  have invalid: "\<not> status_m (material (properties alist_get unconfigured json_without_tau0))"
    using throws by (simp add: status_properties required_keys_def unconfigured_def)
  have failed: "material (properties alist_get unconfigured json_without_tau0) =
      unconfigured\<lparr>density_m := 1000, youngs_modulus_m := 3, poisson_ratio_m := 0\<rparr>"
    by (simp add: properties_def properties_catch_def alist_get_def json_without_tau0_def)
  have rest: "strain_rate (particle_of [Vec6 0 0 0 0 0 0]) 0 = Vec6 0 0 0 0 0 0"
    by (simp add: strain_rate_def particle_of_def)
  have computes: "outcome (compute_stress3 3
        (material (properties alist_get unconfigured json_without_tau0))
        (Vec6 3 3 3 0 0 0) (Vec6 1 0 0 0 0 0) (particle_of [Vec6 0 0 0 0 0 0]))
      = Inr (Vec6 4 4 4 0 0 0)"
    by (simp add: failed compute_stress3_3d rest tau_at_rest pressure_new_def pressure_old_def
        dpressure_def bulk_modulus_def scale_def vadd_def dirac_delta_def)
  show ?thesis
    using throws valid kept invalid computes by simp
qed

text \<open>
  C7, amended: after \<^verbatim>\<open>properties(material_properties)\<close> the status flag is true if and
  only if it was true before the call or the lookup of each of the six required keys
  (density, youngs_modulus, poisson_ratio, tau0, mu, critical_shear_rate) yields a
  double, that is, none of them throws. So on an instance whose flag is not yet set the
  flag is true afterwards exactly when all six parsed, and a missing or unparseable
  parameter leaves the flag as it was. In every case the call returns normally: the
  exception is caught inside \<^verbatim>\<open>properties\<close> and none reaches the caller.
\<close>

theorem properties_status_after:
  "(status_m (material (properties get_double this j)) \<longleftrightarrow>
      status_m this \<or> (\<forall>k \<in> set required_keys. \<not> isl (get_double j k))) \<and>
   (\<not> status_m this \<longrightarrow>
      (status_m (material (properties get_double this j)) \<longleftrightarrow>
         (\<forall>k \<in> set required_keys. \<not> isl (get_double j k)))) \<and>
   outcome (properties get_double this j) = Inr ()"
  by (simp add: status_properties outcome_properties)

theorem properties_status_after_witness:
  "\<not> status_m unconfigured \<and>
   status_m (material (properties alist_get unconfigured complete_json)) \<and>
   outcome (properties alist_get unconfigured complete_json) = Inr () \<and>
   \<not> status_m (material (properties alist_get unconfigured json_without_tau0)) \<and>
   outcome (properties alist_get unconfigured json_without_tau0) = Inr () \<and>
   status_m viscoplastic \<and>
   status_m (material (properties alist_get viscoplastic json_without_tau0))"
proof -
  have fresh: "\<not> status_m unconfigured"
    by (simp add: unconfigured_def)
  have valid: "status_m viscoplastic"
    by (simp add: viscoplastic_def)
  show ?thesis
    using fresh valid
      properties_status_after [of alist_get unconfigured complete_json]
      properties_status_after [of alist_get unconfigured json_without_tau0]
      properties_status_after [of alist_get viscoplastic json_without_tau0]
    by (simp add: required_keys_def alist_get_def complete_json_def json_without_tau0_def)
qed

text \<open>
  C9. \<^verbatim>\<open>properties\<close> is not atomic on failure. If the lookup of the \<open>n\<close>-th required key
  (counted from 0, in the order the function reads them) is the first that throws, then
  the members of the keys before it hold the newly parsed values, the member of the
  failing key and of every later key is as before the call, the stored
  \<^verbatim>\<open>properties_\<close> copy and the status flag are as before the call (the flag is not set
  to true), and the call returns normally after writing the message to \<^verbatim>\<open>std::cerr\<close>.
\<close>

theorem properties_not_atomic:
  assumes "n < 6"
    and "\<forall>i<n. get_double j (required_keys ! i) = Inr (v i)"
    and "get_double j (required_keys ! n) = Inl e"
  shows "(\<forall>i<n. param (material (properties get_double this j)) i = v i) \<and>
         (\<forall>i. n \<le> i \<and> i < 6 \<longrightarrow>
              param (material (properties get_double this j)) i = param this i) \<and>
         properties_m (material (properties get_double this j)) = properties_m this \<and>
         status_m (material (properties get_double this j)) = status_m this \<and>
         outcome (properties get_double this j) = Inr () \<and>
         cerr (properties get_double this j) = [''Material parameter not set: '' @ what e]"
proof -
  have parsed: "\<And>i. i < n \<Longrightarrow> get_double j (required_keys ! i) = Inr (v i)"
    using assms(2) by blast
  consider "n = 0" | "n = 1" | "n = 2" | "n = 3" | "n = 4" | "n = 5"
    using assms(1) by linarith
  then show ?thesis
  proof cases
    case 1
    then show ?thesis
      using assms(3)
      by (simp add: properties_def properties_catch_def required_keys_def)
  next
    case 2
    then show ?thesis
      using assms(3) parsed [of 0]
      by (simp add: properties_def properties_catch_def required_keys_def param_def)
  next
    case 3
    then show ?thesis
      using assms(3) parsed [of 0] parsed [of 1]
      by (auto simp add: properties_def properties_catch_def required_keys_def param_def
          less_Suc_eq eval_nat_numeral)
  next
    case 4
    then show ?thesis
      using assms(3) parsed [of 0] parsed [of 1] parsed [of 2]
      by (auto simp add: properties_def properties_catch_def required_keys_def param_def
          less_Suc_eq eval_nat_numeral)
  next
    case 5
    then show ?thesis
      using assms(3) parsed [of 0] parsed [of 1] parsed [of 2] parsed [of 3]
      by (auto simp add: properties_def properties_catch_def required_keys_def param_def
          less_Suc_eq eval_nat_numeral)
  next
    case 6
    then show ?thesis
      using assms(3) parsed [of 0] parsed [of 1] parsed [of 2] parsed [of 3] parsed [of 4]
      by (auto simp add: properties_def properties_catch_def required_keys_def param_def
          less_Suc_eq eval_nat_numeral)
  qed
qed

text \<open>
  On a parameter set without \<open>tau0\<close>: density, Young's modulus and Poisson ratio are
  overwritten, \<open>tau0\<close>, \<open>mu\<close> and the critical shear rate keep their old value \<open>7\<close>, the
  status flag stays false.
\<close>

theorem properties_not_atomic_witness:
  "density_m (material (properties alist_get unconfigured json_without_tau0)) = 1000 \<and>
   youngs_modulus_m (material (properties alist_get unconfigured json_without_tau0)) = 3 \<and>
   poisson_ratio_m (material (properties alist_get unconfigured json_without_tau0)) = 0 \<and>
   tau0_m (material (properties alist_get unconfigured json_without_tau0)) = 7 \<and>
   mu_m (material (properties alist_get unconfigured json_without_tau0)) = 7 \<and>
   critical_shear_rate_m (material (properties alist_get unconfigured json_without_tau0)) = 7 \<and>
   properties_m (material (properties alist_get unconfigured json_without_tau0)) = [] \<and>
   \<not> status_m (material (properties alist_get unconfigured json_without_tau0)) \<and>
   cerr (properties alist_get unconfigured json_without_tau0)
     = [''Material parameter not set: key not found: tau0'']"
proof -
  have before: "\<forall>i<3. alist_get json_without_tau0 (required_keys ! i) = Inr ([1000, 3, 0] ! i)"
    by (simp add: less_Suc_eq eval_nat_numeral alist_get_def json_without_tau0_def
        required_keys_def)
  have failing: "alist_get json_without_tau0 (required_keys ! 3)
                   = Inl (json_exception ''key not found: tau0'')"
    by (simp add: alist_get_def json_without_tau0_def required_keys_def)
  have "(3::nat) < 6"
    by simp
  from properties_not_atomic
         [where n = 3 and v = "\<lambda>i. [1000, 3, 0] ! i" and this = unconfigured
            and get_double = alist_get and j = json_without_tau0
            and e = "json_exception ''key not found: tau0''",
          OF this before failing]
  have after: "\<forall>i<3. param (material (properties alist_get unconfigured json_without_tau0)) i
                      = [1000, 3, 0] ! i"
    and kept: "\<forall>i. 3 \<le> i \<and> i < 6 \<longrightarrow>
                 param (material (properties alist_get unconfigured json_without_tau0)) i
                   = param unconfigured i"
    and rest: "properties_m (material (properties alist_get unconfigured json_without_tau0))
                 = properties_m unconfigured"
              "status_m (material (properties alist_get unconfigured json_without_tau0))
                 = status_m unconfigured"
              "cerr (properties alist_get unconfigured json_without_tau0)
                 = [''Material parameter not set: '' @ what (json_exception ''key not found: tau0'')]"
    by simp_all
  from after have "param (material (properties alist_get unconfigured json_without_tau0)) 0 = 1000"
    and "param (material (properties alist_get unconfigured json_without_tau0)) 1 = 3"
    and "param (material (properties alist_get unconfigured json_without_tau0)) 2 = 0"
    by simp_all
  moreover from kept
  have "param (material (properties alist_get unconfigured json_without_tau0)) 3
          = param unconfigured 3"
    and "param (material (properties alist_get unconfigured json_without_tau0)) 4
          = param unconfigured 4"
    and "param (material (properties alist_get unconfigured json_without_tau0)) 5
          = param unconfigured 5"
    by simp_all
  ultimately show ?thesis
    using rest by (simp add: param_def unconfigured_def)
qed

end
